theory Spec2Isabelle
  imports Complex_Main "HOL-Library.Sublist"
begin

section \<open>Python string primitives used by the scripts\<close>

text \<open>
  The two scripts \<^verbatim>\<open>validate_court_addresses.py\<close> and
  \<^verbatim>\<open>apply_verified_address_updates.py\<close> work on Python \<^verbatim>\<open>str\<close> values.
  A string is modelled as a \<^typ>\<open>string\<close> over the ASCII range: the white space
  characters are the ASCII characters for which \<^verbatim>\<open>str.isspace\<close> holds (used alike by
  \<^verbatim>\<open>str.strip()\<close>, \<^verbatim>\<open>str.split()\<close> and the regular expression class
  \<^verbatim>\<open>\s\<close>), and \<^verbatim>\<open>str.lower()\<close> maps \<^verbatim>\<open>A-Z\<close> to \<^verbatim>\<open>a-z\<close> and leaves every other
  character alone. A value that is \<^verbatim>\<open>None\<close> or missing is read by the scripts through
  \<^verbatim>\<open>value or ""\<close> and \<^verbatim>\<open>d.get(k, "")\<close>, so it is the empty string here.
\<close>

definition is_space :: "char \<Rightarrow> bool" where
  "is_space c = (c \<in> set [CHR 0x09, CHR 0x0A, CHR 0x0B, CHR 0x0C, CHR 0x0D,
                            CHR 0x1C, CHR 0x1D, CHR 0x1E, CHR 0x1F, CHR '' ''])"

definition upper_letters :: string where
  "upper_letters = ''ABCDEFGHIJKLMNOPQRSTUVWXYZ''"

definition lower_letters :: string where
  "lower_letters = ''abcdefghijklmnopqrstuvwxyz''"

definition lower_char :: "char \<Rightarrow> char" where
  "lower_char c = (case map_of (zip upper_letters lower_letters) c of Some d \<Rightarrow> d | None \<Rightarrow> c)"

text \<open>\<^verbatim>\<open>s.lower()\<close>\<close>

definition py_lower :: "string \<Rightarrow> string" where
  "py_lower s = map lower_char s"

text \<open>\<^verbatim>\<open>s.strip()\<close>: white space removed at both ends.\<close>

definition py_strip :: "string \<Rightarrow> string" where
  "py_strip s = rev (dropWhile is_space (rev (dropWhile is_space s)))"

text \<open>\<^verbatim>\<open>re.sub(r"[\.,]", " ", s)\<close>\<close>

definition is_punct :: "char \<Rightarrow> bool" where
  "is_punct c = (c = CHR ''.'' \<or> c = CHR '','')"

definition sub_punct :: "string \<Rightarrow> string" where
  "sub_punct s = map (\<lambda>c. if is_punct c then CHR '' '' else c) s"

text \<open>\<^verbatim>\<open>re.sub(r"\s+", " ", s)\<close>: every maximal run of white space becomes one blank.\<close>

function sub_spaces :: "string \<Rightarrow> string" where
  "sub_spaces [] = []"
| "sub_spaces (c # cs) =
     (if is_space c then CHR '' '' # sub_spaces (dropWhile is_space cs)
      else c # sub_spaces cs)"
  by pat_completeness auto
termination
  by (relation "measure length") (auto simp: length_dropWhile_le less_Suc_eq_le)

text \<open>\<^verbatim>\<open>s.split()\<close>: the maximal runs of characters that are not white space.\<close>

function py_split :: "string \<Rightarrow> string list" where
  "py_split s =
     (case dropWhile is_space s of
        [] \<Rightarrow> []
      | c # cs \<Rightarrow> (c # takeWhile (\<lambda>x. \<not> is_space x) cs)
                   # py_split (dropWhile (\<lambda>x. \<not> is_space x) cs))"
  by pat_completeness auto
termination
proof (relation "measure length")
  show "wf (measure length)" by simp
next
  fix s :: string and c cs
  assume h: "dropWhile is_space s = c # cs"
  have "length (dropWhile (\<lambda>x. \<not> is_space x) cs) \<le> length cs"
    by (rule length_dropWhile_le)
  moreover have "length (c # cs) \<le> length s"
    using length_dropWhile_le [of is_space s] h by simp
  ultimately show "(dropWhile (\<lambda>x. \<not> is_space x) cs, s) \<in> measure length"
    by simp
qed

declare py_split.simps [simp del]

text \<open>\<^verbatim>\<open>s.split(sep)\<close> for a separator of one character: always at least one part.\<close>

fun split_on :: "char \<Rightarrow> string \<Rightarrow> string list" where
  "split_on sep [] = [[]]"
| "split_on sep (c # cs) =
     (if c = sep then [] # split_on sep cs
      else (case split_on sep cs of [] \<Rightarrow> [[c]] | p # ps \<Rightarrow> (c # p) # ps))"

text \<open>\<^verbatim>\<open>sep.join(parts)\<close>\<close>

fun py_join :: "string \<Rightarrow> string list \<Rightarrow> string" where
  "py_join sep [] = []"
| "py_join sep [p] = p"
| "py_join sep (p # q # ps) = p @ sep @ py_join sep (q # ps)"

text \<open>\<^verbatim>\<open>d.get(k, "")\<close> on a dictionary of strings.\<close>

definition get_str :: "(string \<rightharpoonup> string) \<Rightarrow> string \<Rightarrow> string" where
  "get_str d k = (case d k of None \<Rightarrow> [] | Some v \<Rightarrow> v)"

section \<open>Normalisation\<close>

text \<open>\<^verbatim>\<open>normalize_text\<close>, the same function in both scripts.\<close>

definition normalize_text :: "string \<Rightarrow> string" where
  "normalize_text v = sub_spaces (sub_punct (py_lower (py_strip v)))"

definition NAME_STOPWORDS :: "string set" where
  "NAME_STOPWORDS = {''the'', ''department'', ''division'', ''dept'', ''court'',
     ''courthouse'', ''municipal'', ''probate'', ''family''}"

definition ADDRESS_ABBREVIATIONS :: "string \<rightharpoonup> string" where
  "ADDRESS_ABBREVIATIONS = map_of
     [(''street'', ''st''), (''road'', ''rd''), (''avenue'', ''ave''),
      (''boulevard'', ''blvd''), (''drive'', ''dr''), (''court'', ''ct''),
      (''place'', ''pl''), (''square'', ''sq''), (''lane'', ''ln''),
      (''highway'', ''hwy''), (''route'', ''rt''), (''parkway'', ''pkwy''),
      (''circle'', ''cir''), (''center'', ''ctr''), (''mount'', ''mt'')]"

definition normalize_name :: "string \<Rightarrow> string" where
  "normalize_name v =
     py_join '' '' (filter (\<lambda>t. t \<notin> NAME_STOPWORDS) (py_split (normalize_text v)))"

definition normalize_address :: "string \<Rightarrow> string" where
  "normalize_address v =
     py_join '' ''
       (map (\<lambda>token. case ADDRESS_ABBREVIATIONS token of None \<Rightarrow> token | Some t \<Rightarrow> t)
            (py_split (normalize_text v)))"

section \<open>Parsing a verified address (apply script)\<close>

record ParsedAddress =
  building :: string
  address_line1 :: string
  unit :: string

text \<open>
  \<^verbatim>\<open>parts = [part.strip() for part in address1.split(",") if part.strip()]\<close>
\<close>

definition comma_parts :: "string \<Rightarrow> string list" where
  "comma_parts address1 =
     map py_strip (filter (\<lambda>part. py_strip part \<noteq> []) (split_on CHR '','' address1))"

definition parse_verified_address :: "string \<Rightarrow> string \<Rightarrow> ParsedAddress" where
  "parse_verified_address address1 existing_unit =
     (let parts = comma_parts address1;
          parsed = \<lparr>building = [], address_line1 = [], unit = existing_unit\<rparr>
      in if parts = [] then parsed
         else if length parts = 1 then parsed\<lparr>address_line1 := parts ! 0\<rparr>
         else if sublist ''courthouse'' (py_lower (parts ! 0)) \<and> length parts \<ge> 2 then
           (let parsed1 = parsed\<lparr>building := parts ! 0, address_line1 := parts ! 1\<rparr>
            in if length parts \<ge> 3 then parsed1\<lparr>unit := parts ! 2\<rparr> else parsed1)
         else
           (let parsed1 = parsed\<lparr>address_line1 := parts ! 0\<rparr>;
                parsed2 = (if length parts \<ge> 2 then parsed1\<lparr>unit := parts ! 1\<rparr> else parsed1)
            in if length parts > 2 then parsed2\<lparr>unit := py_join '', '' (drop 1 parts)\<rparr>
               else parsed2))"

text \<open>\<^verbatim>\<open>build_orig_address\<close>\<close>

definition build_orig_address ::
  "string \<Rightarrow> string \<Rightarrow> string \<Rightarrow> string \<Rightarrow> string \<Rightarrow> string \<Rightarrow> string \<Rightarrow> string" where
  "build_orig_address building_arg line1_arg unit_arg address2 city_arg state_arg zip_arg =
     (let parts = filter (\<lambda>p. p \<noteq> []) [building_arg, line1_arg, unit_arg, address2];
          line = py_join '', '' parts;
          city_state = py_join '', '' (filter (\<lambda>part. part \<noteq> []) [city_arg, state_arg]);
          city_state1 =
            (if zip_arg \<noteq> []
             then (if city_state \<noteq> [] then city_state @ '' '' @ zip_arg else zip_arg)
             else city_state)
      in if city_state1 \<noteq> []
         then (if line \<noteq> [] then line @ '', '' @ city_state1 else city_state1)
         else line)"

section \<open>Applying one verification record (apply script, \<^verbatim>\<open>main\<close>)\<close>

text \<open>
  An entry of a local JSON file is a dictionary; \<^verbatim>\<open>main\<close> reads and writes its keys
  \<^verbatim>\<open>"address"\<close> (a dictionary of strings) and \<^verbatim>\<open>"has_po_box"\<close>. A key that is absent is
  \<^term>\<open>None\<close>; every other key of the entry lives in the record's extension and is not
  touched. The function below is the body of the loop of \<^verbatim>\<open>main\<close> for the entry it has
  selected, from \<^verbatim>\<open>addr = entry.get("address", {})\<close> to \<^verbatim>\<open>entry["address"] = addr\<close>;
  the look-up of the coordinates over the network that follows is not part of it.
\<close>

record entry =
  entry_address :: "(string \<rightharpoonup> string) option"
  entry_has_po_box :: "bool option"

definition merge_address ::
  "(string \<rightharpoonup> string) \<Rightarrow> (string \<rightharpoonup> string) \<Rightarrow> (string \<rightharpoonup> string) \<times> ParsedAddress" where
  "merge_address info addr =
     (let verified_address1 = get_str info ''verified_address1'';
          verified_city = get_str info ''verified_city'';
          verified_state = get_str info ''verified_state'';
          verified_zip = get_str info ''verified_zip'';
          parsed = parse_verified_address verified_address1 (get_str addr ''unit'');
          addr1 = (if address_line1 parsed \<noteq> []
                   then addr(''address'' \<mapsto> address_line1 parsed) else addr);
          addr2 = (if unit parsed \<noteq> [] then addr1(''unit'' \<mapsto> unit parsed)
                   else addr1(''unit'' := None));
          addr3 = addr2(''city'' \<mapsto>
                    (if verified_city \<noteq> [] then verified_city else get_str addr2 ''city''));
          addr4 = addr3(''state'' \<mapsto>
                    (if verified_state \<noteq> [] then verified_state else get_str addr3 ''state''));
          addr5 = addr4(''zip'' \<mapsto>
                    (if verified_zip \<noteq> [] then verified_zip else get_str addr4 ''zip''))
      in (addr5, parsed))"

definition apply_verified :: "(string \<rightharpoonup> string) \<Rightarrow> 'a entry_scheme \<Rightarrow> 'a entry_scheme" where
  "apply_verified info e =
     (let addr = (case entry_address e of None \<Rightarrow> Map.empty | Some a \<Rightarrow> a);
          verified_address2 = get_str info ''verified_address2'';
          (addr5, parsed) = merge_address info addr;
          has_po_box_new = (verified_address2 \<noteq> [] \<or> entry_has_po_box e = Some True);
          addr6 = addr5(''orig_address'' \<mapsto>
                    build_orig_address (building parsed) (get_str addr5 ''address'')
                      (get_str addr5 ''unit'') verified_address2 (get_str addr5 ''city'')
                      (get_str addr5 ''state'') (get_str addr5 ''zip''))
      in e\<lparr>entry_address := Some addr6, entry_has_po_box := Some has_po_box_new\<rparr>)"

section \<open>Matching local courts to mass.gov locations (validation script)\<close>

record LocalCourt =
  source_file :: string
  name :: string
  court_code :: string
  tyler_code :: string
  phone :: string
  fax :: string
  has_po_box :: bool
  address1 :: string
  city :: string
  state :: string
  zip_code :: string
  county :: string
  orig_address :: string

record MassGovLocation =
  title :: string
  location_id :: string
  path_alias :: "string option"
  addresses :: "(string \<rightharpoonup> string) list"
  cities :: "string set"

definition url :: "MassGovLocation \<Rightarrow> string" where
  "url loc = (case path_alias loc of
                None \<Rightarrow> []
              | Some p \<Rightarrow> if p \<noteq> [] then ''https://www.mass.gov'' @ p else [])"

text \<open>
  \<^verbatim>\<open>name_similarity(a, b)\<close> is \<^verbatim>\<open>SequenceMatcher(None, a, b).ratio()\<close> of the Python
  standard library. It is a parameter \<open>sim\<close> of every function that calls it, so
  that what is proved holds for whatever ratio the library computes. Scores are Python
  floats; they are modelled as real numbers, the constants \<^verbatim>\<open>0.1\<close>, \<^verbatim>\<open>0.15\<close>,
  \<^verbatim>\<open>0.2\<close>, \<^verbatim>\<open>0.6\<close> and \<^verbatim>\<open>0.8\<close> as the decimal fractions they denote.
\<close>

type_synonym similarity = "string \<Rightarrow> string \<Rightarrow> real"

definition candidate_locations :: "string \<Rightarrow> MassGovLocation list \<Rightarrow> MassGovLocation list" where
  "candidate_locations local_city locations =
     (let normalized_city = normalize_text local_city;
          city_matches = filter (\<lambda>loc. normalized_city \<noteq> [] \<and> normalized_city \<in> cities loc)
                           locations
      in if city_matches \<noteq> [] then city_matches else locations)"

text \<open>
  The inner loop of \<^verbatim>\<open>find_best_match\<close> over \<^verbatim>\<open>loc.addresses\<close>, with its two
  \<^verbatim>\<open>break\<close>s: it returns the score and \<^verbatim>\<open>addr_match\<close>.
\<close>

fun scan_addresses ::
  "string \<Rightarrow> string \<Rightarrow> (string \<rightharpoonup> string) list \<Rightarrow> real \<Rightarrow> real \<times> bool" where
  "scan_addresses local_addr_norm orig [] score = (score, False)"
| "scan_addresses local_addr_norm orig (addr # rest) score =
     (let addr_norm = normalize_address (get_str addr ''address_line1'')
      in if addr_norm \<noteq> [] \<and> addr_norm = local_addr_norm then (score + 0.2, True)
         else if orig \<noteq> [] \<and> addr_norm \<noteq> [] \<and> sublist addr_norm (normalize_address orig)
         then (score + 0.15, True)
         else scan_addresses local_addr_norm orig rest score)"

text \<open>
  The body of the loop over the locations, up to the comparison with the best score:
  it returns \<^verbatim>\<open>(score, addr_match, city_match)\<close> for one location. The three
  normalised values of the local court are computed before the loop in the source.
\<close>

definition score_location :: "similarity \<Rightarrow> LocalCourt \<Rightarrow> MassGovLocation \<Rightarrow> real \<times> bool \<times> bool" where
  "score_location sim local loc =
     (let local_name_norm = normalize_name (name local);
          local_addr_norm = normalize_address (address1 local);
          local_city_norm = normalize_text (city local);
          title_norm = normalize_name (title loc);
          score = sim local_name_norm title_norm;
          city_match = (local_city_norm \<noteq> [] \<and> local_city_norm \<in> cities loc);
          score1 = (if city_match then score + 0.1 else score);
          (score2, addr_match) =
            (if local_addr_norm \<noteq> []
             then scan_addresses local_addr_norm (orig_address local) (addresses loc) score1
             else (score1, False))
      in (score2, addr_match, city_match))"

type_synonym match_result = "MassGovLocation option \<times> real \<times> bool \<times> bool"

definition best_step :: "similarity \<Rightarrow> LocalCourt \<Rightarrow> MassGovLocation \<Rightarrow> match_result \<Rightarrow> match_result" where
  "best_step sim local loc st =
     (case st of (best, best_score, best_addr_match, best_city_match) \<Rightarrow>
        (case score_location sim local loc of (score, addr_match, city_match) \<Rightarrow>
           if score > best_score then (Some loc, score, addr_match, city_match) else st))"

definition scan_locations :: "similarity \<Rightarrow> LocalCourt \<Rightarrow> MassGovLocation list \<Rightarrow> match_result" where
  "scan_locations sim local locations =
     fold (best_step sim local) locations (None, 0, False, False)"

definition find_best_match :: "similarity \<Rightarrow> LocalCourt \<Rightarrow> MassGovLocation list \<Rightarrow> match_result" where
  "find_best_match sim local locations =
     (case scan_locations sim local locations of
        (best, best_score, best_addr_match, best_city_match) \<Rightarrow>
          if best_score < 0.6 then (None, 0, False, False)
          else (best, best_score, best_addr_match, best_city_match))"

definition pick_primary_address :: "MassGovLocation \<Rightarrow> (string \<rightharpoonup> string)" where
  "pick_primary_address location =
     (case addresses location of
        a # _ \<Rightarrow> a
      | [] \<Rightarrow> map_of [(''address_line1'', []), (''address_line2'', []), (''city'', []),
                        (''state'', []), (''postal_code'', [])])"

definition recommend_action ::
  "LocalCourt \<Rightarrow> MassGovLocation option \<Rightarrow> real \<Rightarrow> bool \<Rightarrow> bool \<Rightarrow> string \<times> string \<times> string" where
  "recommend_action local match score addr_match city_match =
     (case match of
        None \<Rightarrow> (''review'', ''needs_manual'', ''No mass.gov location match'')
      | Some m \<Rightarrow>
          if addr_match then (''no_change'', ''local'', ''Address matches mass.gov'')
          else if score \<ge> 0.8 \<and> city_match \<and> addresses m \<noteq> []
          then (''update_local_from_massgov'', ''massgov'', ''High-confidence name/city match'')
          else (''verify_web'', ''needs_manual'', ''Name match without address confirmation''))"

text \<open>
  The first four statements of the loop of \<^verbatim>\<open>write_report\<close>: candidates, best match,
  recommendation. The result is \<^verbatim>\<open>((action, preferred, note), match, score, addr_match,
  city_match)\<close>.
\<close>

definition match_and_recommend ::
  "similarity \<Rightarrow> LocalCourt \<Rightarrow> MassGovLocation list \<Rightarrow> (string \<times> string \<times> string) \<times> match_result" where
  "match_and_recommend sim local locations =
     (let candidates = candidate_locations (city local) locations;
          res = find_best_match sim local candidates
      in (case res of (match, score, addr_match, city_match) \<Rightarrow>
            (recommend_action local match score addr_match city_match, res)))"

text \<open>
  A row of the report is the dictionary handed to \<^verbatim>\<open>csv.DictWriter.writerow\<close>, in the
  order of the columns. A cell holds a string, a Boolean, or the score (which the source
  formats with two decimals). The dictionary literal of the source is written here in
  four consecutive groups of columns: those of the local court, those of the matched
  location, the decision, and those copied from the manual verification.
\<close>

datatype cell = Str string | Bool bool | Num real

definition manual_key :: "LocalCourt \<Rightarrow> string" where
  "manual_key local = source_file local @ ''::'' @ name local @ ''::'' @ city local"

definition local_cells :: "LocalCourt \<Rightarrow> (string \<times> cell) list" where
  "local_cells local =
     [(''source_file'', Str (source_file local)),
      (''court_name'', Str (name local)),
      (''court_code'', Str (court_code local)),
      (''tyler_code'', Str (tyler_code local)),
      (''phone'', Str (phone local)),
      (''fax'', Str (fax local)),
      (''has_po_box'', Bool (has_po_box local)),
      (''local_address1'', Str (address1 local)),
      (''local_city'', Str (city local)),
      (''local_state'', Str (state local)),
      (''local_zip'', Str (zip_code local)),
      (''local_county'', Str (county local)),
      (''local_orig_address'', Str (orig_address local))]"

definition massgov_cells :: "MassGovLocation option \<Rightarrow> real \<Rightarrow> (string \<times> cell) list" where
  "massgov_cells match score =
     (let primary = (case match of None \<Rightarrow> Map.empty | Some m \<Rightarrow> pick_primary_address m)
      in [(''massgov_name'', Str (case match of None \<Rightarrow> [] | Some m \<Rightarrow> title m)),
          (''massgov_match_score'', (case match of None \<Rightarrow> Str [] | Some m \<Rightarrow> Num score)),
          (''massgov_address1'', Str (get_str primary ''address_line1'')),
          (''massgov_address2'', Str (get_str primary ''address_line2'')),
          (''massgov_city'', Str (get_str primary ''city'')),
          (''massgov_state'', Str (get_str primary ''state'')),
          (''massgov_zip'', Str (get_str primary ''postal_code'')),
          (''massgov_url'', Str (case match of None \<Rightarrow> [] | Some m \<Rightarrow> url m))])"

definition decision_cells ::
  "bool \<Rightarrow> bool \<Rightarrow> string \<Rightarrow> string \<Rightarrow> string \<Rightarrow> (string \<times> cell) list" where
  "decision_cells addr_match city_match action preferred note =
     [(''address_match'', Bool addr_match),
      (''city_match'', Bool city_match),
      (''recommended_action'', Str action),
      (''preferred_source'', Str preferred),
      (''notes'', Str note)]"

definition manual_cells :: "(string \<rightharpoonup> string) \<Rightarrow> (string \<times> cell) list" where
  "manual_cells manual =
     [(''verified_address1'', Str (get_str manual ''verified_address1'')),
      (''verified_address2'', Str (get_str manual ''verified_address2'')),
      (''verified_city'', Str (get_str manual ''verified_city'')),
      (''verified_state'', Str (get_str manual ''verified_state'')),
      (''verified_zip'', Str (get_str manual ''verified_zip'')),
      (''verification_source_name'', Str (get_str manual ''verification_source_name'')),
      (''verification_source_url'', Str (get_str manual ''verification_source_url'')),
      (''verification_notes'', Str (get_str manual ''verification_notes'')),
      (''secondary_address1'', Str (get_str manual ''secondary_address1'')),
      (''secondary_address2'', Str (get_str manual ''secondary_address2'')),
      (''secondary_city'', Str (get_str manual ''secondary_city'')),
      (''secondary_state'', Str (get_str manual ''secondary_state'')),
      (''secondary_zip'', Str (get_str manual ''secondary_zip'')),
      (''secondary_source_name'', Str (get_str manual ''secondary_source_name'')),
      (''secondary_source_url'', Str (get_str manual ''secondary_source_url'')),
      (''secondary_source_notes'', Str (get_str manual ''secondary_source_notes'')),
      (''secondary_source_confidence'', Str (get_str manual ''secondary_source_confidence'')),
      (''final_action'', Str (get_str manual ''final_action''))]"

definition report_row ::
  "similarity \<Rightarrow> (string \<rightharpoonup> (string \<rightharpoonup> string)) \<Rightarrow> MassGovLocation list \<Rightarrow> LocalCourt
     \<Rightarrow> (string \<times> cell) list" where
  "report_row sim manual_verifications locations local =
     (case match_and_recommend sim local locations of
        ((action, preferred, note), match, score, addr_match, city_match) \<Rightarrow>
     (let manual = (case manual_verifications (manual_key local) of
                      None \<Rightarrow> Map.empty | Some m \<Rightarrow> m);
          verification_notes = get_str manual ''verification_notes'';
          preferred1 = (if get_str manual ''preferred_source'' \<noteq> []
                        then get_str manual ''preferred_source'' else preferred);
          action1 = (if get_str manual ''final_action'' \<noteq> []
                     then get_str manual ''final_action'' else action);
          note1 = (if verification_notes \<noteq> [] then verification_notes else note)
      in local_cells local @ massgov_cells match score
           @ decision_cells addr_match city_match action1 preferred1 note1
           @ manual_cells manual))"

text \<open>\<^verbatim>\<open>write_report\<close>: one row for each local court, in order.\<close>

definition write_report ::
  "similarity \<Rightarrow> (string \<rightharpoonup> (string \<rightharpoonup> string)) \<Rightarrow> LocalCourt list \<Rightarrow> MassGovLocation list
     \<Rightarrow> (string \<times> cell) list list" where
  "write_report sim manual_verifications local_courts locations =
     map (report_row sim manual_verifications locations) local_courts"

section \<open>Definitions used to state the properties\<close>

text \<open>
  A similarity function to put in place of the parameter \<open>sim\<close> at concrete inputs:
  1 on equal strings and 0 otherwise. \<^verbatim>\<open>SequenceMatcher.ratio\<close> has these values on two
  equal strings and on two strings with no character in common, the only pairs at which
  it is evaluated in this theory.
\<close>

definition exact_similarity :: similarity where
  "exact_similarity a b = (if a = b then 1 else 0)"

text \<open>
  The score as the specification words it: the name ratio, plus 0.1 for a city match,
  plus the bonus of the first address of the location that is equal to the local line
  after normalisation (0.2) or, being non-empty, occurs inside the normalised original
  display string (0.15).
\<close>

definition address_hit :: "LocalCourt \<Rightarrow> (string \<rightharpoonup> string) \<Rightarrow> bool" where
  "address_hit local addr =
     (let line1 = normalize_address (get_str addr ''address_line1'')
      in line1 = normalize_address (address1 local) \<or>
         (line1 \<noteq> [] \<and> sublist line1 (normalize_address (orig_address local))))"

definition claimed_address_bonus :: "LocalCourt \<Rightarrow> MassGovLocation \<Rightarrow> real" where
  "claimed_address_bonus local loc =
     (case find (address_hit local) (addresses loc) of
        None \<Rightarrow> 0
      | Some addr \<Rightarrow>
          if normalize_address (get_str addr ''address_line1'') = normalize_address (address1 local)
          then 0.2 else 0.15)"

definition claimed_city_bonus :: "LocalCourt \<Rightarrow> MassGovLocation \<Rightarrow> real" where
  "claimed_city_bonus local loc =
     (if normalize_text (city local) \<noteq> [] \<and> normalize_text (city local) \<in> cities loc
      then 0.1 else 0)"

definition claimed_score :: "similarity \<Rightarrow> LocalCourt \<Rightarrow> MassGovLocation \<Rightarrow> real" where
  "claimed_score sim local loc =
     sim (normalize_name (name local)) (normalize_name (title loc))
       + claimed_city_bonus local loc + claimed_address_bonus local loc"

text \<open>Concrete courts and locations.\<close>

definition worcester_local :: LocalCourt where
  "worcester_local =
     \<lparr>source_file = ''district_courts.json'', name = ''Worcester District Court'',
      court_code = ''62'', tyler_code = ''worcester'', phone = ''(508) 831-2010'', fax = [],
      has_po_box = False, address1 = ''225 Main Street'', city = ''Worcester'', state = ''MA'',
      zip_code = ''01608'', county = ''Worcester County'',
      orig_address = ''225 Main Street, Worcester, MA 01608''\<rparr>"

definition worcester_location :: MassGovLocation where
  "worcester_location =
     \<lparr>title = ''Worcester District Court'', location_id = ''loc-worcester'',
      path_alias = Some ''/locations/worcester-district-court'',
      addresses = [map_of [(''address_line1'', ''225 Main St''), (''address_line2'', []),
                           (''city'', ''Worcester''), (''state'', ''MA''),
                           (''postal_code'', ''01608''), (''country'', ''US'')]],
      cities = {''worcester''}\<rparr>"

definition boston_location :: MassGovLocation where
  "boston_location =
     \<lparr>title = ''Boston Municipal Court'', location_id = ''loc-boston'',
      path_alias = None,
      addresses = [map_of [(''address_line1'', ''24 New Chardon St''), (''address_line2'', []),
                           (''city'', ''Boston''), (''state'', ''MA''),
                           (''postal_code'', ''02114''), (''country'', ''US'')]],
      cities = {''boston''}\<rparr>"

text \<open>The largest score of the scan, the initial best score \<^verbatim>\<open>0.0\<close> included.\<close>

definition max_score :: "similarity \<Rightarrow> LocalCourt \<Rightarrow> MassGovLocation list \<Rightarrow> real" where
  "max_score sim local locations =
     Max (insert 0 ((\<lambda>loc. fst (score_location sim local loc)) ` set locations))"

definition ayer_local :: LocalCourt where
  "ayer_local =
     \<lparr>source_file = ''district_courts.json'', name = ''Ayer Court'',
      court_code = ''48'', tyler_code = ''ayer'', phone = [], fax = [],
      has_po_box = False, address1 = ''24 New Chardon Street'', city = ''Boston'', state = ''MA'',
      zip_code = ''02114'', county = ''Suffolk County'',
      orig_address = ''24 New Chardon Street, Boston, MA 02114''\<rparr>"

definition no_line1_local :: LocalCourt where
  "no_line1_local =
     \<lparr>source_file = ''district_courts.json'', name = ''Worcester District Court'',
      court_code = ''62'', tyler_code = ''worcester'', phone = [], fax = [],
      has_po_box = False, address1 = [], city = ''Worcester'', state = ''MA'',
      zip_code = ''01608'', county = ''Worcester County'',
      orig_address = ''225 Main St., Worcester, MA 01608''\<rparr>"

definition no_orig_local :: LocalCourt where
  "no_orig_local =
     \<lparr>source_file = ''district_courts.json'', name = ''Worcester District Court'',
      court_code = ''62'', tyler_code = ''worcester'', phone = [], fax = [],
      has_po_box = False, address1 = ''225 Main Street'', city = ''Worcester'', state = ''MA'',
      zip_code = ''01608'', county = ''Worcester County'', orig_address = []\<rparr>"

definition moved_local :: LocalCourt where
  "moved_local =
     \<lparr>source_file = ''district_courts.json'', name = ''Worcester District Court'',
      court_code = ''62'', tyler_code = ''worcester'', phone = [], fax = [],
      has_po_box = False, address1 = ''50 Harvard Street'', city = ''Worcester'', state = ''MA'',
      zip_code = ''01609'', county = ''Worcester County'',
      orig_address = ''50 Harvard Street, Worcester, MA 01609''\<rparr>"

text \<open>A manual verification for the Worcester court, without a preferred source or notes.\<close>

definition worcester_manual :: "string \<rightharpoonup> string" where
  "worcester_manual =
     map_of [(''final_action'', ''update_local_from_verified''),
             (''verified_address1'', ''225 Main St''),
             (''verified_city'', ''Worcester''),
             (''verification_source_name'', ''Clerk of the court'')]"

definition worcester_verifications :: "string \<rightharpoonup> (string \<rightharpoonup> string)" where
  "worcester_verifications =
     map_of [(''district_courts.json::Worcester District Court::Worcester'', worcester_manual)]"

section \<open>The parser of verified addresses\<close>


text \<open>
  Claim C2, as amended. The parsed value starts as \<^verbatim>\<open>ParsedAddress(unit=existing_unit)\<close>,
  so with zero non-empty comma parts the result has an empty building and an empty
  address line and its unit is the caller's existing unit; with exactly one part the
  result has that part as its address line, an empty building, and again the caller's
  existing unit.
\<close>

theorem parse_verified_address_keeps_existing_unit:
  "(comma_parts verified_line = [] \<longrightarrow>
      parse_verified_address verified_line existing_unit =
        \<lparr>building = [], address_line1 = [], unit = existing_unit\<rparr>) \<and>
   (\<forall>p. comma_parts verified_line = [p] \<longrightarrow>
      parse_verified_address verified_line existing_unit =
        \<lparr>building = [], address_line1 = p, unit = existing_unit\<rparr>)"
  by (simp add: parse_verified_address_def Let_def)

theorem parse_verified_address_keeps_existing_unit_witness:
  "comma_parts '' , '' = [] \<and>
   parse_verified_address '' , '' ''Suite 5'' =
     \<lparr>building = [], address_line1 = [], unit = ''Suite 5''\<rparr> \<and>
   comma_parts ''1 Main St'' = [''1 Main St''] \<and>
   parse_verified_address ''1 Main St'' ''Suite 5'' =
     \<lparr>building = [], address_line1 = ''1 Main St'', unit = ''Suite 5''\<rparr>"
proof -
  have zero: "comma_parts '' , '' = []" by code_simp
  have one: "comma_parts ''1 Main St'' = [''1 Main St'']" by code_simp
  show ?thesis
    using zero one
      parse_verified_address_keeps_existing_unit [of "'' , ''" "''Suite 5''"]
      parse_verified_address_keeps_existing_unit [of "''1 Main St''" "''Suite 5''"]
    by simp
qed

text \<open>
  Claim C2 as stated fails: with existing unit \<^verbatim>\<open>"Suite 5"\<close> the empty line does not
  parse to the all-empty value, and the one-part line \<^verbatim>\<open>"1 Main St"\<close> keeps the unit.
\<close>

theorem parse_verified_address_discards_unit_counterexample:
  "comma_parts [] = [] \<and>
   parse_verified_address [] ''Suite 5'' \<noteq> \<lparr>building = [], address_line1 = [], unit = []\<rparr> \<and>
   comma_parts ''1 Main St'' = [''1 Main St''] \<and>
   unit (parse_verified_address ''1 Main St'' ''Suite 5'') \<noteq> []"
  by code_simp

text \<open>
  Claim C8. With two or more non-empty comma parts: when the first part contains
  \<^verbatim>\<open>courthouse\<close> (after lowering) the building is the first part, the address line the
  second and the unit the third when there is one; otherwise the address line is the
  first part and the unit is the second part, or, with three or more parts, all parts
  from index 1 on joined by \<^verbatim>\<open>", "\<close>.
\<close>

theorem parse_verified_address_two_or_more:
  assumes "2 \<le> length (comma_parts verified_line)"
  shows "let parts = comma_parts verified_line;
             parsed = parse_verified_address verified_line existing_unit
         in (sublist ''courthouse'' (py_lower (parts ! 0)) \<longrightarrow>
               building parsed = parts ! 0 \<and> address_line1 parsed = parts ! 1 \<and>
               (3 \<le> length parts \<longrightarrow> unit parsed = parts ! 2)) \<and>
            (\<not> sublist ''courthouse'' (py_lower (parts ! 0)) \<longrightarrow>
               address_line1 parsed = parts ! 0 \<and>
               (length parts = 2 \<longrightarrow> unit parsed = parts ! 1) \<and>
               (3 \<le> length parts \<longrightarrow> unit parsed = py_join '', '' (drop 1 parts)))"
proof -
  from assms have ne: "comma_parts verified_line \<noteq> []" "length (comma_parts verified_line) \<noteq> 1"
    by auto
  show ?thesis
    using assms ne by (auto simp add: parse_verified_address_def Let_def)
qed

theorem parse_verified_address_two_or_more_witness:
  "2 \<le> length (comma_parts ''Worcester Courthouse, 1 Main St, Room 4, Rear'') \<and>
   parse_verified_address ''Worcester Courthouse, 1 Main St, Room 4, Rear'' ''Old'' =
     \<lparr>building = ''Worcester Courthouse'', address_line1 = ''1 Main St'', unit = ''Room 4''\<rparr> \<and>
   2 \<le> length (comma_parts ''1 Main St, Suite 2, Floor 3'') \<and>
   address_line1 (parse_verified_address ''1 Main St, Suite 2, Floor 3'' []) = ''1 Main St'' \<and>
   unit (parse_verified_address ''1 Main St, Suite 2, Floor 3'' []) = ''Suite 2, Floor 3''"
proof -
  have p1: "comma_parts ''Worcester Courthouse, 1 Main St, Room 4, Rear'' =
      [''Worcester Courthouse'', ''1 Main St'', ''Room 4'', ''Rear'']" by code_simp
  have c1: "sublist ''courthouse'' (py_lower ''Worcester Courthouse'')" by code_simp
  have p2: "comma_parts ''1 Main St, Suite 2, Floor 3'' = [''1 Main St'', ''Suite 2'', ''Floor 3'']"
    by code_simp
  have c2: "\<not> sublist ''courthouse'' (py_lower ''1 Main St'')" by code_simp
  have r1: "parse_verified_address ''Worcester Courthouse, 1 Main St, Room 4, Rear'' ''Old'' =
     \<lparr>building = ''Worcester Courthouse'', address_line1 = ''1 Main St'', unit = ''Room 4''\<rparr>"
    using parse_verified_address_two_or_more
            [of "''Worcester Courthouse, 1 Main St, Room 4, Rear''" "''Old''"] p1 c1
    by (cases "parse_verified_address ''Worcester Courthouse, 1 Main St, Room 4, Rear'' ''Old''")
       (simp add: Let_def)
  have r2: "address_line1 (parse_verified_address ''1 Main St, Suite 2, Floor 3'' []) = ''1 Main St'' \<and>
   unit (parse_verified_address ''1 Main St, Suite 2, Floor 3'' []) = ''Suite 2, Floor 3''"
    using parse_verified_address_two_or_more [of "''1 Main St, Suite 2, Floor 3''" "[]"] p2 c2
    by (simp add: Let_def)
  show ?thesis using p1 p2 r1 r2 by simp
qed

section \<open>The scan of the addresses of a location\<close>

lemma normalize_address_Nil: "normalize_address [] = []"
  by code_simp

lemma scan_addresses_find:
  assumes "normalize_address (address1 local) \<noteq> []"
  shows "scan_addresses (normalize_address (address1 local)) (orig_address local) addrs score =
           (case find (address_hit local) addrs of
              None \<Rightarrow> (score, False)
            | Some addr \<Rightarrow>
                if normalize_address (get_str addr ''address_line1'') = normalize_address (address1 local)
                then (score + 0.2, True) else (score + 0.15, True))"
proof (induction addrs)
  case Nil
  show ?case by simp
next
  case (Cons addr rest)
  have orig: "orig_address local = [] \<Longrightarrow> normalize_address (orig_address local) = []"
    by (simp add: normalize_address_Nil)
  show ?case
    using Cons assms orig
    by (auto simp add: address_hit_def Let_def)
qed

section \<open>The candidate filter\<close>

text \<open>
  Claim C7. On a non-empty list of locations \<^verbatim>\<open>candidate_locations\<close> returns a non-empty
  list: the locations whose set of cities contains the normalised local city, or the whole
  list when there is none or when the local city normalises to the empty string.
\<close>

theorem candidate_locations_nonempty:
  assumes "locations \<noteq> []"
  shows "candidate_locations local_city locations \<noteq> [] \<and>
         candidate_locations local_city locations =
           (let city_matches = filter (\<lambda>loc. normalize_text local_city \<in> cities loc) locations
            in if normalize_text local_city = [] \<or> city_matches = [] then locations
               else city_matches)"
proof (cases "normalize_text local_city = []")
  case True
  then show ?thesis using assms by (simp add: candidate_locations_def Let_def)
next
  case False
  then show ?thesis using assms by (simp add: candidate_locations_def Let_def)
qed

theorem candidate_locations_nonempty_witness:
  "[worcester_location, boston_location] \<noteq> [] \<and>
   map title (candidate_locations ''Worcester'' [worcester_location, boston_location]) =
     [''Worcester District Court''] \<and>
   map title (candidate_locations ''Springfield'' [worcester_location, boston_location]) =
     [''Worcester District Court'', ''Boston Municipal Court'']"
proof -
  have ne: "[worcester_location, boston_location] \<noteq> []" by simp
  have w: "normalize_text ''Worcester'' = ''worcester''" by code_simp
  have s: "normalize_text ''Springfield'' = ''springfield''" by code_simp
  have "candidate_locations ''Worcester'' [worcester_location, boston_location] =
          [worcester_location]"
    using candidate_locations_nonempty [OF ne, of "''Worcester''"]
    by (simp add: w Let_def worcester_location_def boston_location_def)
  moreover have "candidate_locations ''Springfield'' [worcester_location, boston_location] =
          [worcester_location, boston_location]"
    using candidate_locations_nonempty [OF ne, of "''Springfield''"]
    by (simp add: s Let_def worcester_location_def boston_location_def)
  ultimately show ?thesis
    by (simp add: worcester_location_def boston_location_def)
qed

section \<open>The best match and the confidence floor\<close>

lemma best_step_score:
  "fst (snd (best_step sim local loc st)) =
     max (fst (snd st)) (fst (score_location sim local loc))"
  by (cases st; cases "score_location sim local loc") (auto simp add: best_step_def)

lemma fold_best_step_score:
  "fst (snd (fold (best_step sim local) locs st)) =
     Max (insert (fst (snd st)) ((\<lambda>loc. fst (score_location sim local loc)) ` set locs))"
proof (induction locs arbitrary: st)
  case Nil
  show ?case by simp
next
  case (Cons loc locs)
  let ?f = "\<lambda>loc. fst (score_location sim local loc)"
  have "Max (insert (max (fst (snd st)) (?f loc)) (?f ` set locs)) =
        Max (insert (fst (snd st)) (insert (?f loc) (?f ` set locs)))"
    by (cases "set locs = {}") (simp_all add: max.assoc)
  then show ?case
    by (simp add: Cons.IH best_step_score)
qed

lemma scan_locations_score:
  "fst (snd (scan_locations sim local locations)) = max_score sim local locations"
  by (simp add: scan_locations_def max_score_def fold_best_step_score)

text \<open>
  Claim C5. When the largest score of the scan is strictly below 0.6, the result of
  \<^verbatim>\<open>find_best_match\<close> is \<^verbatim>\<open>(None, 0.0, False, False)\<close>, whatever flags the location
  with that score had, and \<^verbatim>\<open>recommend_action\<close> takes it to the action
  \<^verbatim>\<open>review\<close>.
\<close>

theorem find_best_match_below_floor:
  assumes "max_score sim local locations < 0.6"
  shows "find_best_match sim local locations = (None, 0, False, False) \<and>
         (case find_best_match sim local locations of
            (match, score, addr_match, city_match) \<Rightarrow>
              recommend_action local match score addr_match city_match) =
           (''review'', ''needs_manual'', ''No mass.gov location match'')"
proof -
  obtain b s a c where st: "scan_locations sim local locations = (b, s, a, c)"
    by (cases "scan_locations sim local locations") auto
  with scan_locations_score [of sim local locations] assms have "s < 0.6" by simp
  with st have "find_best_match sim local locations = (None, 0, False, False)"
    by (simp add: find_best_match_def)
  then show ?thesis by (simp add: recommend_action_def)
qed

theorem find_best_match_below_floor_witness:
  "max_score exact_similarity ayer_local [boston_location] < 0.6 \<and>
   score_location exact_similarity ayer_local boston_location = (3 / 10, True, True) \<and>
   find_best_match exact_similarity ayer_local [boston_location] = (None, 0, False, False) \<and>
   (case find_best_match exact_similarity ayer_local [boston_location] of
      (match, score, addr_match, city_match) \<Rightarrow>
        recommend_action ayer_local match score addr_match city_match) =
     (''review'', ''needs_manual'', ''No mass.gov location match'')"
proof -
  have sc: "score_location exact_similarity ayer_local boston_location = (3 / 10, True, True)"
    by code_simp
  have m: "max_score exact_similarity ayer_local [boston_location] < 0.6"
    by (simp add: max_score_def sc)
  note r = find_best_match_below_floor [OF m]
  show ?thesis
    by (intro conjI m sc conjunct1 [OF r] conjunct2 [OF r])
qed

lemma best_step_addr_flag:
  assumes "fst (snd (score_location sim local loc)) = False" "fst (snd (snd st)) = False"
  shows "fst (snd (snd (best_step sim local loc st))) = False"
  using assms
  by (cases st; cases "score_location sim local loc") (auto simp add: best_step_def)

lemma fold_best_step_addr_flag:
  assumes "\<forall>loc \<in> set locs. fst (snd (score_location sim local loc)) = False"
      and "fst (snd (snd st)) = False"
  shows "fst (snd (snd (fold (best_step sim local) locs st))) = False"
  using assms
proof (induction locs arbitrary: st)
  case Nil
  then show ?case by simp
next
  case (Cons loc locs)
  have "fst (snd (snd (best_step sim local loc st))) = False"
    using Cons.prems by (intro best_step_addr_flag) simp_all
  then show ?case using Cons by simp
qed

lemma find_best_match_addr_flag:
  assumes "\<forall>loc \<in> set locs. fst (snd (score_location sim local loc)) = False"
  shows "fst (snd (snd (find_best_match sim local locs))) = False"
proof -
  have "fst (snd (snd (scan_locations sim local locs))) = False"
    unfolding scan_locations_def using assms by (intro fold_best_step_addr_flag) simp_all
  then show ?thesis
    by (cases "scan_locations sim local locs") (auto simp add: find_best_match_def)
qed

lemma scan_addresses_no_orig:
  "scan_addresses a [] addrs score = (score, False) \<or>
   scan_addresses a [] addrs score = (score + 0.2, True)"
  by (induction addrs) (auto simp add: Let_def)

lemma score_location_no_local_address:
  assumes "normalize_address (address1 local) = []"
  shows "score_location sim local loc =
           (sim (normalize_name (name local)) (normalize_name (title loc)) +
              (if normalize_text (city local) \<noteq> [] \<and> normalize_text (city local) \<in> cities loc
               then 0.1 else 0),
            False,
            normalize_text (city local) \<noteq> [] \<and> normalize_text (city local) \<in> cities loc)"
  using assms by (simp add: score_location_def Let_def)

text \<open>
  Claim C10. When the local \<^verbatim>\<open>address1\<close> normalises to the empty string, the score of
  a location is the name ratio plus the city bonus only, its \<^verbatim>\<open>addr_match\<close> is false,
  and so is the flag that \<^verbatim>\<open>find_best_match\<close> returns. When \<^verbatim>\<open>orig_address\<close> is empty
  the address bonus is 0 or 0.2, never 0.15.
\<close>

theorem no_address_bonus_without_local_address:
  "(normalize_address (address1 local) = [] \<longrightarrow>
      score_location sim local loc =
        (sim (normalize_name (name local)) (normalize_name (title loc)) +
           (if normalize_text (city local) \<noteq> [] \<and> normalize_text (city local) \<in> cities loc
            then 0.1 else 0),
         False,
         normalize_text (city local) \<noteq> [] \<and> normalize_text (city local) \<in> cities loc) \<and>
      fst (snd (snd (find_best_match sim local locations))) = False) \<and>
   (orig_address local = [] \<longrightarrow>
      fst (score_location sim local loc) =
        sim (normalize_name (name local)) (normalize_name (title loc)) +
          (if normalize_text (city local) \<noteq> [] \<and> normalize_text (city local) \<in> cities loc
           then 0.1 else 0) \<or>
      fst (score_location sim local loc) =
        sim (normalize_name (name local)) (normalize_name (title loc)) +
          (if normalize_text (city local) \<noteq> [] \<and> normalize_text (city local) \<in> cities loc
           then 0.1 else 0) + 0.2)"
proof (intro conjI impI)
  assume e: "normalize_address (address1 local) = []"
  show "score_location sim local loc =
        (sim (normalize_name (name local)) (normalize_name (title loc)) +
           (if normalize_text (city local) \<noteq> [] \<and> normalize_text (city local) \<in> cities loc
            then 0.1 else 0),
         False,
         normalize_text (city local) \<noteq> [] \<and> normalize_text (city local) \<in> cities loc)"
    by (rule score_location_no_local_address [OF e])
  have "\<forall>l \<in> set locations. fst (snd (score_location sim local l)) = False"
    by (simp add: score_location_no_local_address [OF e])
  then show "fst (snd (snd (find_best_match sim local locations))) = False"
    by (rule find_best_match_addr_flag)
next
  assume o: "orig_address local = []"
  let ?base = "sim (normalize_name (name local)) (normalize_name (title loc)) +
          (if normalize_text (city local) \<noteq> [] \<and> normalize_text (city local) \<in> cities loc
           then 0.1 else 0)"
  show "fst (score_location sim local loc) = ?base \<or>
        fst (score_location sim local loc) = ?base + 0.2"
  proof (cases "normalize_address (address1 local) = []")
    case True
    then show ?thesis by (simp add: score_location_no_local_address)
  next
    case False
    from scan_addresses_no_orig [of "normalize_address (address1 local)" "addresses loc" ?base]
    show ?thesis
      using False o by (auto simp add: score_location_def Let_def)
  qed
qed

theorem no_address_bonus_without_local_address_witness:
  "normalize_address (address1 no_line1_local) = [] \<and>
   sublist (normalize_address ''225 Main St'') (normalize_address (orig_address no_line1_local)) \<and>
   score_location exact_similarity no_line1_local worcester_location = (11 / 10, False, True) \<and>
   fst (snd (snd (find_best_match exact_similarity no_line1_local [worcester_location]))) = False \<and>
   orig_address no_orig_local = [] \<and>
   fst (score_location exact_similarity no_orig_local worcester_location) = 1 + 0.1 + 0.2"
proof -
  have e: "normalize_address (address1 no_line1_local) = []" by code_simp
  have sub: "sublist (normalize_address ''225 Main St'')
               (normalize_address (orig_address no_line1_local))" by code_simp
  have sc: "score_location exact_similarity no_line1_local worcester_location =
              (11 / 10, False, True)" by code_simp
  have f: "fst (snd (snd (find_best_match exact_similarity no_line1_local [worcester_location])))
             = False"
    using e no_address_bonus_without_local_address
            [where local = no_line1_local and sim = exact_similarity
               and loc = worcester_location and locations = "[worcester_location]"]
    by blast
  have o: "orig_address no_orig_local = []" by (simp add: no_orig_local_def)
  have sc2: "fst (score_location exact_similarity no_orig_local worcester_location) = 1 + 0.1 + 0.2"
    by code_simp
  show ?thesis by (intro conjI e sub sc f o sc2)
qed

lemma score_location_eq:
  "score_location sim local loc =
     (sim (normalize_name (name local)) (normalize_name (title loc))
        + claimed_city_bonus local loc
        + (if normalize_address (address1 local) = [] then 0 else claimed_address_bonus local loc),
      normalize_address (address1 local) \<noteq> [] \<and> find (address_hit local) (addresses loc) \<noteq> None,
      normalize_text (city local) \<noteq> [] \<and> normalize_text (city local) \<in> cities loc)"
proof (cases "normalize_address (address1 local) = []")
  case True
  then show ?thesis
    by (simp add: score_location_def Let_def claimed_city_bonus_def)
next
  case False
  show ?thesis
    using False
    by (simp add: score_location_def Let_def claimed_city_bonus_def claimed_address_bonus_def
          scan_addresses_find [OF False] split: option.splits)
qed

lemma claimed_address_bonus_cases:
  "claimed_address_bonus local loc =
     (if find (address_hit local) (addresses loc) = None then 0 else claimed_address_bonus local loc) \<and>
   (find (address_hit local) (addresses loc) \<noteq> None \<longrightarrow>
      0.15 \<le> claimed_address_bonus local loc)"
  by (simp add: claimed_address_bonus_def split: option.splits)

text \<open>
  Claim C6, as amended. The score of a location is the name ratio, plus 0.1 exactly when
  the normalised local city is non-empty and among the cities of the location, plus, only
  when the local \<^verbatim>\<open>address1\<close> normalises to a non-empty string, the bonus of the first
  address that hits (0.2 for equal normalised lines, else 0.15 for a non-empty normalised
  line inside the normalised \<^verbatim>\<open>orig_address\<close>); nothing is added when the local
  \<^verbatim>\<open>address1\<close> normalises to the empty string. The sum is not clamped: with a ratio
  of 1 and a city match it is above 1.
\<close>

theorem score_location_formula:
  "score_location sim local loc =
     (sim (normalize_name (name local)) (normalize_name (title loc))
        + claimed_city_bonus local loc
        + (if normalize_address (address1 local) = [] then 0 else claimed_address_bonus local loc),
      normalize_address (address1 local) \<noteq> [] \<and> find (address_hit local) (addresses loc) \<noteq> None,
      normalize_text (city local) \<noteq> [] \<and> normalize_text (city local) \<in> cities loc) \<and>
   (1 \<le> sim (normalize_name (name local)) (normalize_name (title loc)) \<and>
    normalize_text (city local) \<noteq> [] \<and> normalize_text (city local) \<in> cities loc
      \<longrightarrow> 1 < fst (score_location sim local loc))"
proof -
  let ?s = "sim (normalize_name (name local)) (normalize_name (title loc))"
  have eq: "score_location sim local loc =
     (?s + claimed_city_bonus local loc
        + (if normalize_address (address1 local) = [] then 0 else claimed_address_bonus local loc),
      normalize_address (address1 local) \<noteq> [] \<and> find (address_hit local) (addresses loc) \<noteq> None,
      normalize_text (city local) \<noteq> [] \<and> normalize_text (city local) \<in> cities loc)"
    by (rule score_location_eq)
  have nonneg: "0 \<le> claimed_address_bonus local loc"
    by (simp add: claimed_address_bonus_def split: option.splits)
  have "1 < fst (score_location sim local loc)"
    if "1 \<le> ?s" "normalize_text (city local) \<noteq> [] \<and> normalize_text (city local) \<in> cities loc"
    using that nonneg by (simp add: eq claimed_city_bonus_def)
  then show ?thesis using eq by blast
qed

theorem score_location_formula_witness:
  "1 \<le> exact_similarity (normalize_name (name worcester_local))
          (normalize_name (title worcester_location)) \<and>
   normalize_text (city worcester_local) \<noteq> [] \<and>
   normalize_text (city worcester_local) \<in> cities worcester_location \<and>
   1 < fst (score_location exact_similarity worcester_local worcester_location) \<and>
   score_location exact_similarity worcester_local worcester_location = (13 / 10, True, True)"
proof -
  have h: "1 \<le> exact_similarity (normalize_name (name worcester_local))
                 (normalize_name (title worcester_location)) \<and>
           normalize_text (city worcester_local) \<noteq> [] \<and>
           normalize_text (city worcester_local) \<in> cities worcester_location"
    by code_simp
  have v: "score_location exact_similarity worcester_local worcester_location =
             (13 / 10, True, True)" by code_simp
  have "1 < fst (score_location exact_similarity worcester_local worcester_location)"
    using h score_location_formula
            [where sim = exact_similarity and local = worcester_local
               and loc = worcester_location]
    by blast
  then show ?thesis using h v by blast
qed

text \<open>
  Claim C6 as stated fails for a court without \<^verbatim>\<open>address1\<close> whose \<^verbatim>\<open>orig_address\<close>
  contains the line of the location: the claimed score has the bonus 0.15, the code adds
  nothing.
\<close>

theorem score_location_claimed_counterexample:
  "fst (score_location exact_similarity no_line1_local worcester_location) = 1 + 0.1 \<and>
   claimed_score exact_similarity no_line1_local worcester_location = 1 + 0.1 + 0.15"
  by code_simp

section \<open>The pipeline on one court\<close>

lemma normalize_text_Worcester: "normalize_text ''Worcester'' = ''worcester''"
  by code_simp

lemma normalize_name_Worcester_District_Court:
  "normalize_name ''Worcester District Court'' = ''worcester district''"
  by code_simp

lemma find_best_match_single:
  assumes "score_location sim local loc = (s, am, cm)" "0.6 \<le> s"
  shows "find_best_match sim local [loc] = (Some loc, s, am, cm)"
  using assms by (simp add: find_best_match_def scan_locations_def best_step_def)

text \<open>
  Claim C1, as amended. A local court named \<^verbatim>\<open>Worcester District Court\<close> in the city
  \<^verbatim>\<open>Worcester\<close>, a directory whose only location in \<^verbatim>\<open>worcester\<close> has the same
  title, and a ratio of 1 on the equal normalised names. When an address line of the
  location is equal to the local \<^verbatim>\<open>address1\<close> after \<^verbatim>\<open>normalize_address\<close> (the two
  differ in the spelling of a street suffix such as \<^verbatim>\<open>Street\<close> and \<^verbatim>\<open>St\<close>), the
  address matches and the recommendation is \<^verbatim>\<open>no_change\<close>, with a score of at least
  0.8. When no address of the location matches and the location has an address, the
  recommendation is \<^verbatim>\<open>update_local_from_massgov\<close> with the score 1.1.
\<close>

theorem worcester_pipeline:
  assumes ratio: "sim ''worcester district'' ''worcester district'' = 1"
      and local: "name local = ''Worcester District Court''" "city local = ''Worcester''"
      and loc: "title loc = ''Worcester District Court''"
      and only: "filter (\<lambda>l. ''worcester'' \<in> cities l) locations = [loc]"
  shows "(normalize_address (address1 local) \<noteq> [] \<and>
          (\<exists>a \<in> set (addresses loc).
             normalize_address (get_str a ''address_line1'') = normalize_address (address1 local))
          \<longrightarrow> fst (match_and_recommend sim local locations) =
                (''no_change'', ''local'', ''Address matches mass.gov'') \<and>
              fst (snd (match_and_recommend sim local locations)) = Some loc \<and>
              0.8 \<le> fst (snd (snd (match_and_recommend sim local locations))) \<and>
              snd (snd (snd (match_and_recommend sim local locations))) = (True, True)) \<and>
         (\<not> fst (snd (score_location sim local loc)) \<and> addresses loc \<noteq> []
          \<longrightarrow> match_and_recommend sim local locations =
                ((''update_local_from_massgov'', ''massgov'', ''High-confidence name/city match''),
                 Some loc, 1 + 0.1, False, True))"
proof -
  have "loc \<in> set (filter (\<lambda>l. ''worcester'' \<in> cities l) locations)"
    by (simp add: only)
  then have incity: "''worcester'' \<in> cities loc" by simp
  have cand: "candidate_locations (city local) locations = [loc]"
    by (simp add: candidate_locations_def Let_def local normalize_text_Worcester only)
  have city: "claimed_city_bonus local loc = 0.1"
    by (simp add: claimed_city_bonus_def local normalize_text_Worcester incity)
  have sc: "score_location sim local loc =
     (1 + 0.1
        + (if normalize_address (address1 local) = [] then 0 else claimed_address_bonus local loc),
      normalize_address (address1 local) \<noteq> [] \<and> find (address_hit local) (addresses loc) \<noteq> None,
      True)"
    by (simp add: score_location_eq [of sim local loc] city local loc
          normalize_name_Worcester_District_Court ratio normalize_text_Worcester incity)
  show ?thesis
  proof (intro conjI impI)
    assume h: "normalize_address (address1 local) \<noteq> [] \<and>
               (\<exists>a \<in> set (addresses loc).
                  normalize_address (get_str a ''address_line1'') = normalize_address (address1 local))"
    then obtain a where a: "a \<in> set (addresses loc)" "address_hit local a"
      by (auto simp add: address_hit_def Let_def)
    then have f: "find (address_hit local) (addresses loc) \<noteq> None"
      by (auto simp add: find_None_iff)
    with claimed_address_bonus_cases [of local loc]
    have b: "0.15 \<le> claimed_address_bonus local loc" by blast
    define s where "s = 1 + 0.1 + claimed_address_bonus local loc"
    have sc': "score_location sim local loc = (s, True, True)"
      using sc h f by (simp add: s_def)
    have s: "0.8 \<le> s" "0.6 \<le> s" using b by (simp_all add: s_def)
    have m: "find_best_match sim local [loc] = (Some loc, s, True, True)"
      by (rule find_best_match_single [OF sc' s(2)])
    have mr: "match_and_recommend sim local locations =
                ((''no_change'', ''local'', ''Address matches mass.gov''), Some loc, s, True, True)"
      by (simp add: match_and_recommend_def Let_def cand m recommend_action_def)
    show "fst (match_and_recommend sim local locations) =
            (''no_change'', ''local'', ''Address matches mass.gov'')"
      by (simp add: mr)
    show "fst (snd (match_and_recommend sim local locations)) = Some loc"
      by (simp add: mr)
    show "0.8 \<le> fst (snd (snd (match_and_recommend sim local locations)))"
      using s by (simp add: mr)
    show "snd (snd (snd (match_and_recommend sim local locations))) = (True, True)"
      by (simp add: mr)
  next
    assume h: "\<not> fst (snd (score_location sim local loc)) \<and> addresses loc \<noteq> []"
    then have nohit: "\<not> (normalize_address (address1 local) \<noteq> [] \<and>
                 find (address_hit local) (addresses loc) \<noteq> None)"
      by (simp add: sc)
    have "(if normalize_address (address1 local) = [] then 0
           else claimed_address_bonus local loc) = 0"
      using nohit claimed_address_bonus_cases [of local loc] by auto
    then have sc': "score_location sim local loc = (1 + 0.1, False, True)"
      using sc nohit by simp
    have m: "find_best_match sim local [loc] = (Some loc, 1 + 0.1, False, True)"
      by (rule find_best_match_single [OF sc']) simp
    show "match_and_recommend sim local locations =
            ((''update_local_from_massgov'', ''massgov'', ''High-confidence name/city match''),
             Some loc, 1 + 0.1, False, True)"
      using h by (simp add: match_and_recommend_def Let_def cand m recommend_action_def)
  qed
qed

text \<open>
  Claim C1 as stated fails: for \<^verbatim>\<open>225 Main Street\<close> against \<^verbatim>\<open>225 Main St\<close> the
  recommendation is \<^verbatim>\<open>no_change\<close>, not \<^verbatim>\<open>update_local_from_massgov\<close>.
\<close>

theorem worcester_pipeline_counterexample:
  "name worcester_local = ''Worcester District Court'' \<and>
   city worcester_local = ''Worcester'' \<and>
   title worcester_location = ''Worcester District Court'' \<and>
   ''worcester'' \<in> cities worcester_location \<and>
   address1 worcester_local = ''225 Main Street'' \<and>
   map (\<lambda>a. get_str a ''address_line1'') (addresses worcester_location) = [''225 Main St''] \<and>
   fst (match_and_recommend exact_similarity worcester_local [worcester_location, boston_location])
     = (''no_change'', ''local'', ''Address matches mass.gov'') \<and>
   snd (snd (match_and_recommend exact_similarity worcester_local
               [worcester_location, boston_location])) = (13 / 10, True, True)"
  by code_simp

theorem worcester_pipeline_witness:
  "exact_similarity ''worcester district'' ''worcester district'' = 1 \<and>
   name worcester_local = ''Worcester District Court'' \<and> city worcester_local = ''Worcester'' \<and>
   name moved_local = ''Worcester District Court'' \<and> city moved_local = ''Worcester'' \<and>
   title worcester_location = ''Worcester District Court'' \<and>
   filter (\<lambda>l. ''worcester'' \<in> cities l) [worcester_location, boston_location]
     = [worcester_location] \<and>
   normalize_address (address1 worcester_local) \<noteq> [] \<and>
   (\<exists>a \<in> set (addresses worcester_location).
      normalize_address (get_str a ''address_line1'') = normalize_address (address1 worcester_local)) \<and>
   fst (match_and_recommend exact_similarity worcester_local [worcester_location, boston_location])
     = (''no_change'', ''local'', ''Address matches mass.gov'') \<and>
   \<not> fst (snd (score_location exact_similarity moved_local worcester_location)) \<and>
   addresses worcester_location \<noteq> [] \<and>
   match_and_recommend exact_similarity moved_local [worcester_location, boston_location] =
     ((''update_local_from_massgov'', ''massgov'', ''High-confidence name/city match''),
      Some worcester_location, 1 + 0.1, False, True)"
proof -
  have r: "exact_similarity ''worcester district'' ''worcester district'' = 1"
    by (simp add: exact_similarity_def)
  have n1: "name worcester_local = ''Worcester District Court''"
    and c1: "city worcester_local = ''Worcester''"
    by (simp_all add: worcester_local_def)
  have n2: "name moved_local = ''Worcester District Court''"
    and c2: "city moved_local = ''Worcester''"
    by (simp_all add: moved_local_def)
  have t: "title worcester_location = ''Worcester District Court''"
    by (simp add: worcester_location_def)
  have only: "filter (\<lambda>l. ''worcester'' \<in> cities l) [worcester_location, boston_location]
                = [worcester_location]"
    by (simp add: worcester_location_def boston_location_def)
  have a1: "normalize_address (address1 worcester_local) \<noteq> []" by code_simp
  have a2: "\<exists>a \<in> set (addresses worcester_location).
      normalize_address (get_str a ''address_line1'') = normalize_address (address1 worcester_local)"
    by code_simp
  have b1: "\<not> fst (snd (score_location exact_similarity moved_local worcester_location))"
    by code_simp
  have b2: "addresses worcester_location \<noteq> []"
    by (simp add: worcester_location_def)
  have A: "fst (match_and_recommend exact_similarity worcester_local
                  [worcester_location, boston_location])
             = (''no_change'', ''local'', ''Address matches mass.gov'')"
    using worcester_pipeline [where sim = exact_similarity, OF r n1 c1 t only] a1 a2 by blast
  have B: "match_and_recommend exact_similarity moved_local [worcester_location, boston_location] =
     ((''update_local_from_massgov'', ''massgov'', ''High-confidence name/city match''),
      Some worcester_location, 1 + 0.1, False, True)"
    using worcester_pipeline [where sim = exact_similarity, OF r n2 c2 t only] b1 b2 by blast
  show ?thesis
    by (intro conjI r n1 c1 n2 c2 t only a1 a2 A b1 b2 B)
qed

section \<open>The report row and the manual verification\<close>

lemma local_cells_lookup:
  "map_of (local_cells local) ''preferred_source'' = None"
  "map_of (local_cells local) ''recommended_action'' = None"
  "map_of (local_cells local) ''notes'' = None"
  by (simp_all add: local_cells_def)

lemma massgov_cells_lookup:
  "map_of (massgov_cells match score) ''preferred_source'' = None"
  "map_of (massgov_cells match score) ''recommended_action'' = None"
  "map_of (massgov_cells match score) ''notes'' = None"
  by (simp_all add: massgov_cells_def Let_def)

lemma decision_cells_lookup:
  "map_of (decision_cells addr_match city_match action preferred note) ''preferred_source'' =
     Some (Str preferred)"
  "map_of (decision_cells addr_match city_match action preferred note) ''recommended_action'' =
     Some (Str action)"
  "map_of (decision_cells addr_match city_match action preferred note) ''notes'' =
     Some (Str note)"
  by (simp_all add: decision_cells_def)

lemma map_of_append_lookup:
  "map_of (xs @ ys) k = (case map_of xs k of None \<Rightarrow> map_of ys k | Some v \<Rightarrow> Some v)"
  by (simp add: map_add_def split: option.splits)

lemma report_row_cells:
  assumes mr: "match_and_recommend sim local locations =
                 ((action, preferred, note), match, score, addr_match, city_match)"
      and mv: "manual_verifications (manual_key local) = Some manual"
  shows "map_of (report_row sim manual_verifications locations local) ''preferred_source'' =
           Some (Str (if get_str manual ''preferred_source'' \<noteq> []
                      then get_str manual ''preferred_source'' else preferred))"
    and "map_of (report_row sim manual_verifications locations local) ''recommended_action'' =
           Some (Str (if get_str manual ''final_action'' \<noteq> []
                      then get_str manual ''final_action'' else action))"
    and "map_of (report_row sim manual_verifications locations local) ''notes'' =
           Some (Str (if get_str manual ''verification_notes'' \<noteq> []
                      then get_str manual ''verification_notes'' else note))"
  by (simp_all add: report_row_def mr mv Let_def map_of_append_lookup
        local_cells_lookup massgov_cells_lookup decision_cells_lookup
      del: map_of_append)

text \<open>
  Claim C3, as amended. When the table of manual verifications has a record for the key
  of the court, each of the three cells \<^verbatim>\<open>preferred_source\<close>, \<^verbatim>\<open>recommended_action\<close>
  and \<^verbatim>\<open>notes\<close> of the row is the record's \<^verbatim>\<open>preferred_source\<close>, \<^verbatim>\<open>final_action\<close>
  and \<^verbatim>\<open>verification_notes\<close> when that field of the record is present and non-empty,
  and the value computed by \<^verbatim>\<open>recommend_action\<close> otherwise.
\<close>

theorem report_row_manual_override:
  assumes "manual_verifications (manual_key local) = Some manual"
  shows "map_of (report_row sim manual_verifications locations local) ''preferred_source'' =
           Some (Str (if get_str manual ''preferred_source'' \<noteq> []
                      then get_str manual ''preferred_source''
                      else fst (snd (fst (match_and_recommend sim local locations))))) \<and>
         map_of (report_row sim manual_verifications locations local) ''recommended_action'' =
           Some (Str (if get_str manual ''final_action'' \<noteq> []
                      then get_str manual ''final_action''
                      else fst (fst (match_and_recommend sim local locations)))) \<and>
         map_of (report_row sim manual_verifications locations local) ''notes'' =
           Some (Str (if get_str manual ''verification_notes'' \<noteq> []
                      then get_str manual ''verification_notes''
                      else snd (snd (fst (match_and_recommend sim local locations)))))"
proof -
  obtain act pref nt m sc am cm
    where mr: "match_and_recommend sim local locations = ((act, pref, nt), m, sc, am, cm)"
    by (metis prod.exhaust)
  show ?thesis
    using report_row_cells [where manual_verifications = manual_verifications and sim = sim, OF mr assms]
    by (simp add: mr)
qed

theorem report_row_manual_override_witness:
  "worcester_verifications (manual_key worcester_local) = Some worcester_manual \<and>
   map_of (report_row exact_similarity worcester_verifications
             [worcester_location, boston_location] worcester_local) ''recommended_action'' =
     Some (Str ''update_local_from_verified'') \<and>
   map_of (report_row exact_similarity worcester_verifications
             [worcester_location, boston_location] worcester_local) ''preferred_source'' =
     Some (Str ''local'') \<and>
   map_of (report_row exact_similarity worcester_verifications
             [worcester_location, boston_location] worcester_local) ''notes'' =
     Some (Str ''Address matches mass.gov'')"
proof -
  have k: "worcester_verifications (manual_key worcester_local) = Some worcester_manual"
    by (simp add: worcester_verifications_def manual_key_def worcester_local_def)
  have h: "fst (match_and_recommend exact_similarity worcester_local
                  [worcester_location, boston_location]) =
             (''no_change'', ''local'', ''Address matches mass.gov'')"
    by code_simp
  have g: "get_str worcester_manual ''final_action'' = ''update_local_from_verified''"
          "get_str worcester_manual ''preferred_source'' = []"
          "get_str worcester_manual ''verification_notes'' = []"
    by (simp_all add: get_str_def worcester_manual_def)
  show ?thesis
    using report_row_manual_override
            [where manual_verifications = worcester_verifications and sim = exact_similarity
               and locations = "[worcester_location, boston_location]", OF k]
    by (simp add: k h g)
qed

text \<open>
  Claim C3 as stated fails: a record with a final action but no preferred source and no
  notes leaves the preferred source and the note of \<^verbatim>\<open>recommend_action\<close> in the row.
\<close>

theorem report_row_unconditional_override_counterexample:
  "worcester_verifications (manual_key worcester_local) = Some worcester_manual \<and>
   map_of (report_row exact_similarity worcester_verifications
             [worcester_location, boston_location] worcester_local) ''preferred_source'' \<noteq>
     Some (Str (get_str worcester_manual ''preferred_source'')) \<and>
   map_of (report_row exact_similarity worcester_verifications
             [worcester_location, boston_location] worcester_local) ''notes'' \<noteq>
     Some (Str (get_str worcester_manual ''verification_notes''))"
proof -
  have k: "worcester_verifications (manual_key worcester_local) = Some worcester_manual"
    by (simp add: worcester_verifications_def manual_key_def worcester_local_def)
  have p: "map_of (report_row exact_similarity worcester_verifications
             [worcester_location, boston_location] worcester_local) ''preferred_source'' \<noteq>
     Some (Str (get_str worcester_manual ''preferred_source''))"
    by code_simp
  have n: "map_of (report_row exact_similarity worcester_verifications
             [worcester_location, boston_location] worcester_local) ''notes'' \<noteq>
     Some (Str (get_str worcester_manual ''verification_notes''))"
    by code_simp
  show ?thesis by (intro conjI k p n)
qed

end
